theory Spec2Isabelle
  imports Complex_Main
begin

section \<open>Python values and errors\<close>

text \<open>
  The caches of \<^verbatim>\<open>cache_manager.py\<close> store arbitrary Python objects, and their
  \<^verbatim>\<open>get\<close> methods return \<^verbatim>\<open>None\<close> for a miss. A stored or returned value is
  therefore either Python's \<^verbatim>\<open>None\<close> or some other object.
\<close>

datatype 'a pyval = PyNone | Obj 'a

datatype error = KeyError | OSError | UnpicklingError

section \<open>LRUCache\<close>

text \<open>
  The \<^verbatim>\<open>OrderedDict\<close> is an association list in insertion order: the head is the
  entry that \<^verbatim>\<open>popitem(last=False)\<close> removes, a new key is appended at the end.
  The \<^verbatim>\<open>stats\<close> dictionary has three fixed keys, which are three fields.
\<close>

record 'a LRUCache =
  max_size :: int
  cache :: "(string \<times> 'a pyval) list"
  lru_hits :: int
  lru_misses :: int
  lru_evictions :: int

text \<open>\<^verbatim>\<open>OrderedDict.pop(key)\<close> and \<^verbatim>\<open>del d[key]\<close> for a key that is present.\<close>

definition pop :: "string \<Rightarrow> (string \<times> 'v) list \<Rightarrow> (string \<times> 'v) list" where
  "pop key d = filter (\<lambda>p. fst p \<noteq> key) d"

text \<open>\<^verbatim>\<open>__init__\<close> has no check and no raise: it always returns the object.\<close>

definition LRUCache_init :: "int \<Rightarrow> error + 'a LRUCache" where
  "LRUCache_init n =
     Inr \<lparr>max_size = n, cache = [], lru_hits = 0, lru_misses = 0, lru_evictions = 0\<rparr>"

definition LRUCache_get :: "string \<Rightarrow> 'a LRUCache \<Rightarrow> 'a pyval \<times> 'a LRUCache" where
  "LRUCache_get key c =
     (case map_of (cache c) key of
        Some v \<Rightarrow>
          (v, c\<lparr>cache := pop key (cache c) @ [(key, v)], lru_hits := lru_hits c + 1\<rparr>)
      | None \<Rightarrow> (PyNone, c\<lparr>lru_misses := lru_misses c + 1\<rparr>))"

text \<open>
  \<^verbatim>\<open>popitem(last=False)\<close> on an empty \<^verbatim>\<open>OrderedDict\<close> raises \<^verbatim>\<open>KeyError\<close>, before
  anything has been changed.
\<close>

definition LRUCache_set :: "string \<Rightarrow> 'a pyval \<Rightarrow> 'a LRUCache \<Rightarrow> error + 'a LRUCache" where
  "LRUCache_set key v c =
     (if map_of (cache c) key \<noteq> None then
        Inr (c\<lparr>cache := pop key (cache c) @ [(key, v)]\<rparr>)
      else if max_size c \<le> int (length (cache c)) then
        (case cache c of
           [] \<Rightarrow> Inl KeyError
         | _ # rest \<Rightarrow>
             Inr (c\<lparr>cache := rest @ [(key, v)], lru_evictions := lru_evictions c + 1\<rparr>))
      else Inr (c\<lparr>cache := cache c @ [(key, v)]\<rparr>))"

definition LRUCache_delete :: "string \<Rightarrow> 'a LRUCache \<Rightarrow> bool \<times> 'a LRUCache" where
  "LRUCache_delete key c =
     (if map_of (cache c) key \<noteq> None then (True, c\<lparr>cache := pop key (cache c)\<rparr>)
      else (False, c))"

definition LRUCache_clear :: "'a LRUCache \<Rightarrow> 'a LRUCache" where
  "LRUCache_clear c = c\<lparr>cache := []\<rparr>"

definition LRUCache_size :: "'a LRUCache \<Rightarrow> int" where
  "LRUCache_size c = int (length (cache c))"

text \<open>
  A caller's sequence of method calls on one cache. A call that raises leaves the
  object as it was (the only raise, in \<^verbatim>\<open>set\<close>, comes before any change), and the
  caller goes on with the next call.
\<close>

datatype 'a lru_op = Get string | Set string "'a pyval" | Delete string | Clear | Size

fun lru_step :: "'a lru_op \<Rightarrow> 'a LRUCache \<Rightarrow> 'a LRUCache" where
  "lru_step (Get k) c = snd (LRUCache_get k c)"
| "lru_step (Set k v) c = (case LRUCache_set k v c of Inl e \<Rightarrow> c | Inr c' \<Rightarrow> c')"
| "lru_step (Delete k) c = snd (LRUCache_delete k c)"
| "lru_step Clear c = LRUCache_clear c"
| "lru_step Size c = c"

definition lru_run :: "'a lru_op list \<Rightarrow> 'a LRUCache \<Rightarrow> 'a LRUCache" where
  "lru_run ops c = fold lru_step ops c"

text \<open>A run of \<^verbatim>\<open>set\<close> calls with no other call in between, stopping at a raise.\<close>

fun set_all :: "(string \<times> 'a pyval) list \<Rightarrow> 'a LRUCache \<Rightarrow> error + 'a LRUCache" where
  "set_all [] c = Inr c"
| "set_all ((k, v) # kvs) c =
     (case LRUCache_set k v c of Inl e \<Rightarrow> Inl e | Inr c' \<Rightarrow> set_all kvs c')"


section \<open>The file system under a FileCache\<close>

text \<open>
  A cache file holds what \<^verbatim>\<open>pickle.load\<close> makes of it: the pickled value, or
  nothing readable (a truncated or damaged file, on which the load raises). Its
  modification time is a point on the clock of \<^verbatim>\<open>time.time()\<close>, taken as a real
  number of seconds. The values \<open>'a\<close> are the objects \<^verbatim>\<open>pickle.dump\<close> can write.

  A path \<^verbatim>\<open>os.path.join(dir, name)\<close> is the pair of its two parts, and the file
  system gives each directory its files in the order \<^verbatim>\<open>os.listdir\<close> reports them
  (subdirectories are left out: their names do not end in \<^verbatim>\<open>.cache\<close>). The one
  fault modelled is a read-only file system, on which opening a file for writing
  and removing a file raise \<^verbatim>\<open>OSError\<close>.
\<close>

datatype 'a blob = Pickled "'a pyval" | Corrupt

record 'a cache_file =
  mtime :: real
  blob :: "'a blob"

record 'a fsys =
  listdir :: "string \<Rightarrow> (string \<times> 'a cache_file) list"
  read_only :: bool

type_synonym path = "string \<times> string"

definition lookup :: "'a fsys \<Rightarrow> path \<Rightarrow> 'a cache_file option" where
  "lookup fs p = map_of (listdir fs (fst p)) (snd p)"

definition os_path_exists :: "'a fsys \<Rightarrow> path \<Rightarrow> bool" where
  "os_path_exists fs p = (lookup fs p \<noteq> None)"

definition os_path_getmtime :: "'a fsys \<Rightarrow> path \<Rightarrow> error + real" where
  "os_path_getmtime fs p = (case lookup fs p of None \<Rightarrow> Inl OSError | Some f \<Rightarrow> Inr (mtime f))"

definition os_remove :: "'a fsys \<Rightarrow> path \<Rightarrow> error + 'a fsys" where
  "os_remove fs p =
     (if read_only fs \<or> \<not> os_path_exists fs p then Inl OSError
      else Inr (fs\<lparr>listdir := (listdir fs)(fst p := pop (snd p) (listdir fs (fst p)))\<rparr>))"

text \<open>\<^verbatim>\<open>open(path, 'rb')\<close> followed by \<^verbatim>\<open>pickle.load\<close>.\<close>

definition pickle_load :: "'a fsys \<Rightarrow> path \<Rightarrow> error + 'a pyval" where
  "pickle_load fs p =
     (case lookup fs p of
        None \<Rightarrow> Inl OSError
      | Some f \<Rightarrow> (case blob f of Pickled v \<Rightarrow> Inr v | Corrupt \<Rightarrow> Inl UnpicklingError))"

text \<open>
  \<^verbatim>\<open>open(path, 'wb')\<close> followed by \<^verbatim>\<open>pickle.dump\<close>, at clock reading \<open>now\<close>: the file
  is replaced where it is in the directory, or added at the end.
\<close>

definition pickle_dump :: "real \<Rightarrow> 'a pyval \<Rightarrow> 'a fsys \<Rightarrow> path \<Rightarrow> error + 'a fsys" where
  "pickle_dump now v fs p =
     (if read_only fs then Inl OSError
      else
        let new = \<lparr>mtime = now, blob = Pickled v\<rparr>;
            entries = listdir fs (fst p);
            entries' =
              (if os_path_exists fs p
               then map (\<lambda>e. if fst e = snd p then (snd p, new) else e) entries
               else entries @ [(snd p, new)])
        in Inr (fs\<lparr>listdir := (listdir fs)(fst p := entries')\<rparr>))"

definition endswith :: "string \<Rightarrow> string \<Rightarrow> bool" where
  "endswith s suffix =
     (length suffix \<le> length s \<and> drop (length s - length suffix) s = suffix)"

text \<open>A writable file system with nothing in it.\<close>

definition empty_fs :: "'a fsys" where
  "empty_fs = \<lparr>listdir = (\<lambda>d. []), read_only = False\<rparr>"

section \<open>FileCache\<close>

text \<open>
  \<^verbatim>\<open>hashlib.md5(...).hexdigest()\<close> is a library function; the model takes it as the
  parameter \<open>md5\<close> and assumes nothing about it. The clock reading of a call is
  the parameter \<open>now\<close>. Every directory exists in the model, so the
  \<^verbatim>\<open>os.makedirs(cache_dir, exist_ok=True)\<close> of \<^verbatim>\<open>__init__\<close> has nothing to do.
\<close>

record 'a FileCache =
  cache_dir :: string
  max_age_seconds :: int
  fc_hits :: int
  fc_misses :: int
  fc_writes :: int
  fc_deletes :: int

definition FileCache_init :: "string \<Rightarrow> int \<Rightarrow> 'a FileCache" where
  "FileCache_init dir max_age =
     \<lparr>cache_dir = dir, max_age_seconds = max_age,
      fc_hits = 0, fc_misses = 0, fc_writes = 0, fc_deletes = 0\<rparr>"

definition get_cache_path :: "(string \<Rightarrow> string) \<Rightarrow> 'a FileCache \<Rightarrow> string \<Rightarrow> path" where
  "get_cache_path md5 fc key = (cache_dir fc, md5 key @ ''.cache'')"

definition is_expired :: "real \<Rightarrow> 'a FileCache \<Rightarrow> 'a fsys \<Rightarrow> path \<Rightarrow> bool" where
  "is_expired now fc fs p =
     (case os_path_getmtime fs p of
        Inl e \<Rightarrow> True
      | Inr m \<Rightarrow> now - m > real_of_int (max_age_seconds fc))"

definition FileCache_get ::
  "(string \<Rightarrow> string) \<Rightarrow> real \<Rightarrow> string \<Rightarrow> 'a FileCache \<Rightarrow> 'a fsys
     \<Rightarrow> 'a pyval \<times> 'a FileCache \<times> 'a fsys" where
  "FileCache_get md5 now key fc fs =
     (let cache_path = get_cache_path md5 fc key;
          failed = (PyNone, fc\<lparr>fc_misses := fc_misses fc + 1\<rparr>, fs)
      in if os_path_exists fs cache_path \<and> \<not> is_expired now fc fs cache_path then
           (case pickle_load fs cache_path of
              Inl e \<Rightarrow> failed
            | Inr data \<Rightarrow> (data, fc\<lparr>fc_hits := fc_hits fc + 1\<rparr>, fs))
         else if os_path_exists fs cache_path then
           (case os_remove fs cache_path of
              Inl e \<Rightarrow> failed
            | Inr fs' \<Rightarrow> (PyNone, fc\<lparr>fc_misses := fc_misses fc + 1\<rparr>, fs'))
         else (PyNone, fc\<lparr>fc_misses := fc_misses fc + 1\<rparr>, fs))"

definition FileCache_set ::
  "(string \<Rightarrow> string) \<Rightarrow> real \<Rightarrow> string \<Rightarrow> 'a pyval \<Rightarrow> 'a FileCache \<Rightarrow> 'a fsys
     \<Rightarrow> bool \<times> 'a FileCache \<times> 'a fsys" where
  "FileCache_set md5 now key v fc fs =
     (case pickle_dump now v fs (get_cache_path md5 fc key) of
        Inl e \<Rightarrow> (False, fc, fs)
      | Inr fs' \<Rightarrow> (True, fc\<lparr>fc_writes := fc_writes fc + 1\<rparr>, fs'))"


text \<open>
  The loop of \<^verbatim>\<open>clear\<close> over the names \<^verbatim>\<open>os.listdir\<close> returned; \<open>n\<close> is
  \<^verbatim>\<open>deleted_count\<close>. A raise in \<^verbatim>\<open>os.remove\<close> ends the loop: the \<^verbatim>\<open>except\<close> is
  around it.
\<close>

fun clear_loop ::
  "string list \<Rightarrow> int \<Rightarrow> 'a FileCache \<Rightarrow> 'a fsys \<Rightarrow> int \<times> 'a FileCache \<times> 'a fsys" where
  "clear_loop [] n fc fs = (n, fc, fs)"
| "clear_loop (filename # rest) n fc fs =
     (if endswith filename ''.cache'' then
        (case os_remove fs (cache_dir fc, filename) of
           Inl e \<Rightarrow> (n, fc, fs)
         | Inr fs' \<Rightarrow> clear_loop rest (n + 1) (fc\<lparr>fc_deletes := fc_deletes fc + 1\<rparr>) fs')
      else clear_loop rest n fc fs)"

definition FileCache_clear :: "'a FileCache \<Rightarrow> 'a fsys \<Rightarrow> int \<times> 'a FileCache \<times> 'a fsys" where
  "FileCache_clear fc fs = clear_loop (map fst (listdir fs (cache_dir fc))) 0 fc fs"



text \<open>The cache entries on disk: the files of the directory that \<^verbatim>\<open>clear\<close> looks at.\<close>

definition cache_files :: "'a FileCache \<Rightarrow> 'a fsys \<Rightarrow> string list" where
  "cache_files fc fs = filter (\<lambda>n. endswith n ''.cache'') (map fst (listdir fs (cache_dir fc)))"

section \<open>QueryCache\<close>

text \<open>
  The parameter tuple enters the code only through \<^verbatim>\<open>str(params)\<close>; the model takes
  that rendering as \<open>params\<close>. The two tiers are held by reference in the source;
  here the orchestrator's record carries them, and whoever shares them reads them
  from it.
\<close>

record 'a QueryCache =
  memory_cache :: "'a LRUCache"
  file_cache :: "'a FileCache"
  memory_hits :: int
  file_hits :: int
  qc_misses :: int
  stores :: int

definition QueryCache_init :: "'a LRUCache \<Rightarrow> 'a FileCache \<Rightarrow> 'a QueryCache" where
  "QueryCache_init mc fc =
     \<lparr>memory_cache = mc, file_cache = fc,
      memory_hits = 0, file_hits = 0, qc_misses = 0, stores = 0\<rparr>"

definition generate_cache_key :: "(string \<Rightarrow> string) \<Rightarrow> string \<Rightarrow> string \<Rightarrow> string" where
  "generate_cache_key md5 query params = ''query:'' @ md5 (query @ '':'' @ params)"

text \<open>
  A call returns (\<open>Inr\<close>) or raises (\<open>Inl\<close>), and in both cases leaves the
  objects and the file system in the state it has reached. The only raise is the
  \<^verbatim>\<open>KeyError\<close> of \<^verbatim>\<open>LRUCache.set\<close>, which nothing here catches.
\<close>

definition QueryCache_get ::
  "(string \<Rightarrow> string) \<Rightarrow> real \<Rightarrow> string \<Rightarrow> string \<Rightarrow> 'a QueryCache \<Rightarrow> 'a fsys
     \<Rightarrow> (error + 'a pyval) \<times> 'a QueryCache \<times> 'a fsys" where
  "QueryCache_get md5 now query params qc fs =
     (let cache_key = generate_cache_key md5 query params;
          (result, mc) = LRUCache_get cache_key (memory_cache qc)
      in if result \<noteq> PyNone then
           (Inr result, qc\<lparr>memory_cache := mc, memory_hits := memory_hits qc + 1\<rparr>, fs)
         else
           let (result, fc, fs') = FileCache_get md5 now cache_key (file_cache qc) fs
           in if result \<noteq> PyNone then
                (case LRUCache_set cache_key result mc of
                   Inl e \<Rightarrow> (Inl e, qc\<lparr>memory_cache := mc, file_cache := fc\<rparr>, fs')
                 | Inr mc' \<Rightarrow>
                     (Inr result,
                      qc\<lparr>memory_cache := mc', file_cache := fc,
                         file_hits := file_hits qc + 1\<rparr>,
                      fs'))
              else
                (Inr PyNone,
                 qc\<lparr>memory_cache := mc, file_cache := fc, qc_misses := qc_misses qc + 1\<rparr>,
                 fs'))"


text \<open>
  \<^verbatim>\<open>table_name\<close> goes into the log line and nowhere else; logging is not part of
  the model.
\<close>

definition invalidate_pattern ::
  "string \<Rightarrow> 'a QueryCache \<Rightarrow> 'a fsys \<Rightarrow> int \<times> 'a QueryCache \<times> 'a fsys" where
  "invalidate_pattern table_name qc fs =
     (let invalidated_count = 0;
          mc = LRUCache_clear (memory_cache qc);
          (n, fc, fs') = FileCache_clear (file_cache qc) fs
      in (invalidated_count + n, qc\<lparr>memory_cache := mc, file_cache := fc\<rparr>, fs'))"

section \<open>CacheManager\<close>

text \<open>
  \<^verbatim>\<open>self.memory_cache\<close> and \<^verbatim>\<open>self.file_cache\<close> are the very objects the query cache
  holds, so the manager's record keeps them once, inside \<open>query_cache\<close>.
\<close>

record 'a CacheManager =
  query_cache :: "'a QueryCache"
  image_cache :: "'a FileCache"
  config_cache :: "'a LRUCache"

definition cm_memory_cache :: "'a CacheManager \<Rightarrow> 'a LRUCache" where
  "cm_memory_cache cm = memory_cache (query_cache cm)"

definition cm_file_cache :: "'a CacheManager \<Rightarrow> 'a FileCache" where
  "cm_file_cache cm = file_cache (query_cache cm)"

definition os_path_join :: "string \<Rightarrow> string \<Rightarrow> string" where
  "os_path_join a b = (if a = [] \<or> last a = CHR ''/'' then a @ b else a @ ''/'' @ b)"

definition CacheManager_init :: "int \<Rightarrow> string \<Rightarrow> int \<Rightarrow> error + 'a CacheManager" where
  "CacheManager_init memory_cache_size file_cache_dir file_cache_max_age =
     (case LRUCache_init memory_cache_size of
        Inl e \<Rightarrow> Inl e
      | Inr mc \<Rightarrow>
          (case LRUCache_init 100 of
             Inl e \<Rightarrow> Inl e
           | Inr cc \<Rightarrow>
               Inr \<lparr>query_cache =
                      QueryCache_init mc (FileCache_init file_cache_dir file_cache_max_age),
                    image_cache =
                      FileCache_init (os_path_join file_cache_dir ''images'') (24 * 3600),
                    config_cache = cc\<rparr>))"

text \<open>The returned dictionary, its four entries in the order they are evaluated.\<close>

definition clear_all_caches ::
  "'a CacheManager \<Rightarrow> 'a fsys \<Rightarrow> (string \<times> int) list \<times> 'a CacheManager \<times> 'a fsys" where
  "clear_all_caches cm fs =
     (let memory_cache_cleared = LRUCache_size (cm_memory_cache cm);
          (file_cache_deleted, fc, fs1) = FileCache_clear (cm_file_cache cm) fs;
          (image_cache_deleted, ic, fs2) = FileCache_clear (image_cache cm) fs1;
          config_cache_cleared = LRUCache_size (config_cache cm)
      in ([(''memory_cache_cleared'', memory_cache_cleared),
           (''file_cache_deleted'', file_cache_deleted),
           (''image_cache_deleted'', image_cache_deleted),
           (''config_cache_cleared'', config_cache_cleared)],
          cm\<lparr>query_cache := (query_cache cm)\<lparr>file_cache := fc\<rparr>, image_cache := ic\<rparr>,
          fs2))"

section \<open>Sequences of calls\<close>









section \<open>The bounded LRU cache\<close>

lemma length_pop_le: "length (pop k d) \<le> length d"
  by (simp add: pop_def)

lemma length_pop_less: "map_of d k \<noteq> None \<Longrightarrow> length (pop k d) < length d"
proof -
  assume "map_of d k \<noteq> None"
  then obtain p where "p \<in> set d" "fst p = k"
    by (auto simp: map_of_eq_None_iff)
  then show ?thesis
    unfolding pop_def by (intro length_filter_less[of p]) auto
qed

lemma pop_absent: "map_of d k = None \<Longrightarrow> pop k d = d"
  by (auto simp: pop_def map_of_eq_None_iff filter_id_conv)

lemma set_all_fresh:
  "distinct (map fst kvs) \<Longrightarrow> fst ` set kvs \<inter> fst ` set (cache c) = {} \<Longrightarrow>
   int (length (cache c) + length kvs) \<le> max_size c \<Longrightarrow>
   set_all kvs c = Inr (c\<lparr>cache := cache c @ kvs\<rparr>)"
proof (induction kvs arbitrary: c)
  case Nil
  then show ?case by simp
next
  case (Cons kv kvs)
  obtain k v where kv: "kv = (k, v)" by (cases kv)
  from Cons.prems kv have absent: "map_of (cache c) k = None"
    by (auto simp: map_of_eq_None_iff)
  from Cons.prems have room: "\<not> max_size c \<le> int (length (cache c))" by simp
  have step: "LRUCache_set k v c = Inr (c\<lparr>cache := cache c @ [(k, v)]\<rparr>)"
    using absent room by (simp add: LRUCache_set_def)
  let ?c = "c\<lparr>cache := cache c @ [(k, v)]\<rparr>"
  have "set_all kvs ?c = Inr (?c\<lparr>cache := cache ?c @ kvs\<rparr>)"
    using Cons.prems kv by (intro Cons.IH) auto
  then show ?case using step kv by simp
qed

lemma lru_step_max_size: "max_size (lru_step x c) = max_size c"
  by (cases x) (auto simp: LRUCache_get_def LRUCache_set_def LRUCache_delete_def LRUCache_clear_def
      split: option.splits list.splits sum.splits if_splits)

lemma lru_step_bound:
  assumes "0 \<le> max_size c" "int (length (cache c)) \<le> max_size c"
  shows "int (length (cache (lru_step x c))) \<le> max_size c"
proof (cases x)
  case (Get k)
  show ?thesis
  proof (cases "map_of (cache c) k")
    case None
    then show ?thesis using assms Get by (simp add: LRUCache_get_def)
  next
    case (Some v)
    then have "length (pop k (cache c)) < length (cache c)"
      by (intro length_pop_less) simp
    then show ?thesis using assms Get Some by (simp add: LRUCache_get_def)
  qed
next
  case (Set k v)
  show ?thesis
  proof (cases "map_of (cache c) k")
    case None
    then show ?thesis using assms Set
      by (auto simp: LRUCache_set_def split: list.splits)
  next
    case (Some w)
    then have "length (pop k (cache c)) < length (cache c)"
      by (intro length_pop_less) simp
    then show ?thesis using assms Set Some by (simp add: LRUCache_set_def)
  qed
next
  case (Delete k)
  have "length (pop k (cache c)) \<le> length (cache c)" by (rule length_pop_le)
  then show ?thesis using assms Delete by (auto simp: LRUCache_delete_def)
next
  case Clear
  then show ?thesis using assms by (simp add: LRUCache_clear_def)
next
  case Size
  then show ?thesis using assms by simp
qed

lemma lru_run_bound:
  "0 \<le> max_size c \<Longrightarrow> int (length (cache c)) \<le> max_size c \<Longrightarrow>
   max_size (lru_run ops c) = max_size c \<and> int (length (cache (lru_run ops c))) \<le> max_size c"
proof (induction ops arbitrary: c)
  case Nil
  then show ?case by (simp add: lru_run_def)
next
  case (Cons x ops)
  have "max_size (lru_step x c) = max_size c" by (rule lru_step_max_size)
  moreover have "int (length (cache (lru_step x c))) \<le> max_size c"
    using Cons.prems by (rule lru_step_bound)
  ultimately show ?case using Cons.IH[of "lru_step x c"] Cons.prems(1)
    by (simp add: lru_run_def)
qed

lemma set_all_append:
  "set_all (xs @ ys) c = (case set_all xs c of Inl e \<Rightarrow> Inl e | Inr c' \<Rightarrow> set_all ys c')"
  by (induction xs arbitrary: c) (auto split: sum.splits)

lemma set_all_overflow:
  fixes c0 :: "'a LRUCache"
  assumes N: "1 \<le> N" and init: "LRUCache_init N = Inr c0"
    and dist: "distinct (map fst kvs)" and len: "int (length kvs) = N + 1"
  shows "set_all kvs c0 = Inr (c0\<lparr>cache := tl kvs, lru_evictions := 1\<rparr>)"
proof -
  from init have c0: "c0 = \<lparr>max_size = N, cache = [], lru_hits = 0, lru_misses = 0, lru_evictions = 0\<rparr>"
    by (simp add: LRUCache_init_def)
  from N len have ne: "kvs \<noteq> []" by auto
  define ys where "ys = butlast kvs"
  obtain k v where kv: "last kvs = (k, v)" by (cases "last kvs")
  have split: "kvs = ys @ [(k, v)]"
    using ne kv ys_def by (metis append_butlast_last_id)
  have lys: "int (length ys) = N" using len split by simp
  with N obtain y rest where ys: "ys = y # rest" by (cases ys) auto
  have fresh: "map_of ys k = None"
    using dist split by (auto simp: map_of_eq_None_iff)
  have first: "set_all ys c0 = Inr (c0\<lparr>cache := cache c0 @ ys\<rparr>)"
    using dist split lys c0 by (intro set_all_fresh) auto
  have last: "LRUCache_set k v (c0\<lparr>cache := ys\<rparr>) = Inr (c0\<lparr>cache := tl kvs, lru_evictions := 1\<rparr>)"
    using fresh lys ys split c0 by (simp add: LRUCache_set_def)
  show ?thesis
    using first last c0 by (subst split) (simp add: set_all_append)
qed

text \<open>
  Claim C5. A cache built with capacity \<open>N \<ge> 1\<close> and given \<open>N + 1\<close> distinct keys by
  \<^verbatim>\<open>set\<close>, with no other call in between, returns from every \<^verbatim>\<open>set\<close>, ends up holding
  all pairs but the first in their order of insertion, and has counted one eviction;
  a \<^verbatim>\<open>get\<close> of the first key is then a miss and a \<^verbatim>\<open>get\<close> of any other key returns
  its value. After any sequence of calls the cache holds at most \<open>N\<close> entries. With
  capacity 2, \<^verbatim>\<open>set(a,1)\<close>, \<^verbatim>\<open>set(b,2)\<close>, \<^verbatim>\<open>set(c,3)\<close> make \<^verbatim>\<open>get(a)\<close> a miss,
  \<^verbatim>\<open>get(b) == 2\<close> and \<^verbatim>\<open>get(c) == 3\<close>.
\<close>

theorem lru_eviction_and_capacity_bound:
  fixes c0 :: "'a LRUCache"
  assumes "1 \<le> N" and "LRUCache_init N = Inr c0"
  shows "(\<forall>kvs. distinct (map fst kvs) \<and> int (length kvs) = N + 1 \<longrightarrow>
            (\<exists>c. set_all kvs c0 = Inr c \<and> cache c = tl kvs \<and> lru_evictions c = 1 \<and>
                 LRUCache_get (fst (hd kvs)) c = (PyNone, c\<lparr>lru_misses := lru_misses c + 1\<rparr>) \<and>
                 (\<forall>(k, v) \<in> set (tl kvs). fst (LRUCache_get k c) = v)))
       \<and> (\<forall>ops. LRUCache_size (lru_run ops c0) \<le> N)
       \<and> (case LRUCache_init 2 of
            Inl e \<Rightarrow> False
          | Inr c2 \<Rightarrow>
              (case set_all [(''a'', Obj (1::int)), (''b'', Obj 2), (''c'', Obj 3)] c2 of
                 Inl e \<Rightarrow> False
               | Inr c \<Rightarrow>
                   LRUCache_get ''a'' c = (PyNone, c\<lparr>lru_misses := lru_misses c + 1\<rparr>) \<and>
                   fst (LRUCache_get ''b'' c) = Obj 2 \<and>
                   fst (LRUCache_get ''c'' c) = Obj 3 \<and>
                   lru_evictions c = 1))"
proof (intro conjI allI impI)
  fix kvs :: "(string \<times> 'a pyval) list"
  assume h: "distinct (map fst kvs) \<and> int (length kvs) = N + 1"
  let ?c = "c0\<lparr>cache := tl kvs, lru_evictions := 1\<rparr>"
  have run: "set_all kvs c0 = Inr ?c"
    using assms h by (intro set_all_overflow) auto
  from assms(1) h obtain kv rest where kvs: "kvs = kv # rest" by (cases kvs) auto
  have gone: "map_of rest (fst kv) = None"
    using h kvs by (auto simp: map_of_eq_None_iff)
  have kept: "map_of rest k = Some v" if "(k, v) \<in> set rest" for k v
    using that h kvs by (intro map_of_is_SomeI) auto
  have "LRUCache_get (fst (hd kvs)) ?c = (PyNone, ?c\<lparr>lru_misses := lru_misses ?c + 1\<rparr>)"
    using gone kvs by (simp add: LRUCache_get_def)
  moreover have "\<forall>(k, v) \<in> set (tl kvs). fst (LRUCache_get k ?c) = v"
    using kept kvs by (auto simp: LRUCache_get_def)
  ultimately show "\<exists>c. set_all kvs c0 = Inr c \<and> cache c = tl kvs \<and> lru_evictions c = 1 \<and>
                 LRUCache_get (fst (hd kvs)) c = (PyNone, c\<lparr>lru_misses := lru_misses c + 1\<rparr>) \<and>
                 (\<forall>(k, v) \<in> set (tl kvs). fst (LRUCache_get k c) = v)"
    using run by (intro exI[of _ ?c]) simp
next
  fix ops :: "'a lru_op list"
  from assms have "max_size c0 = N" "cache c0 = []"
    by (auto simp: LRUCache_init_def)
  then show "LRUCache_size (lru_run ops c0) \<le> N"
    using lru_run_bound[of c0 ops] assms(1) by (simp add: LRUCache_size_def)
next
  show "case LRUCache_init 2 of
            Inl e \<Rightarrow> False
          | Inr c2 \<Rightarrow>
              (case set_all [(''a'', Obj (1::int)), (''b'', Obj 2), (''c'', Obj 3)] c2 of
                 Inl e \<Rightarrow> False
               | Inr c \<Rightarrow>
                   LRUCache_get ''a'' c = (PyNone, c\<lparr>lru_misses := lru_misses c + 1\<rparr>) \<and>
                   fst (LRUCache_get ''b'' c) = Obj 2 \<and>
                   fst (LRUCache_get ''c'' c) = Obj 3 \<and>
                   lru_evictions c = 1)"
    by (simp add: LRUCache_init_def LRUCache_set_def LRUCache_get_def pop_def)
qed

theorem lru_eviction_and_capacity_bound_witness:
  "(1::int) \<le> 1 \<and>
   LRUCache_init 1 = Inr \<lparr>max_size = 1, cache = [], lru_hits = 0, lru_misses = 0, lru_evictions = 0\<rparr> \<and>
   distinct (map fst [(''x'', Obj True), (''y'', PyNone)]) \<and>
   int (length [(''x'', Obj True), (''y'', PyNone)]) = 1 + 1 \<and>
   set_all [(''x'', Obj True), (''y'', PyNone)]
      \<lparr>max_size = 1, cache = [], lru_hits = 0, lru_misses = 0, lru_evictions = 0\<rparr>
     = Inr \<lparr>max_size = 1, cache = [(''y'', PyNone)], lru_hits = 0, lru_misses = 0, lru_evictions = 1\<rparr> \<and>
   LRUCache_size (lru_run [Set ''x'' (Obj True), Get ''x'', Set ''y'' PyNone, Set ''z'' (Obj False)]
      \<lparr>max_size = 1, cache = [], lru_hits = 0, lru_misses = 0, lru_evictions = 0\<rparr>) \<le> 1"
  using lru_eviction_and_capacity_bound
    [of 1 "\<lparr>max_size = 1, cache = [], lru_hits = 0, lru_misses = 0, lru_evictions = 0\<rparr> :: bool LRUCache"]
  by (simp add: LRUCache_init_def LRUCache_set_def)

text \<open>
  Claim C6. A \<^verbatim>\<open>get\<close> that finds its key returns the stored value and moves the entry
  to the end of the order (the most recently used place), the other entries keeping
  their order; a \<^verbatim>\<open>get\<close> that does not find it returns \<^verbatim>\<open>None\<close> and leaves the order
  as it was. With capacity 2, \<^verbatim>\<open>set(a,1)\<close>, \<^verbatim>\<open>set(b,2)\<close>, \<^verbatim>\<open>get(a)\<close>, \<^verbatim>\<open>set(c,3)\<close>
  evict \<^verbatim>\<open>b\<close>: afterwards \<^verbatim>\<open>get(a) == 1\<close>, \<^verbatim>\<open>get(c) == 3\<close> and \<^verbatim>\<open>get(b)\<close> is a miss.
\<close>

theorem lru_get_updates_recency:
  "(\<forall>v. map_of (cache c) k = Some v \<longrightarrow>
       LRUCache_get k c =
         (v, c\<lparr>cache := pop k (cache c) @ [(k, v)], lru_hits := lru_hits c + 1\<rparr>) \<and>
       last (cache (snd (LRUCache_get k c))) = (k, v) \<and>
       butlast (cache (snd (LRUCache_get k c))) = pop k (cache c))
   \<and> (map_of (cache c) k = None \<longrightarrow>
        fst (LRUCache_get k c) = PyNone \<and> cache (snd (LRUCache_get k c)) = cache c)
   \<and> (case LRUCache_init 2 of
         Inl e \<Rightarrow> False
       | Inr c2 \<Rightarrow>
           (let s = lru_run [Set ''a'' (Obj (1::int)), Set ''b'' (Obj 2), Get ''a'',
                             Set ''c'' (Obj 3)] c2
            in fst (LRUCache_get ''a'' s) = Obj 1 \<and>
               fst (LRUCache_get ''c'' s) = Obj 3 \<and>
               LRUCache_get ''b'' s = (PyNone, s\<lparr>lru_misses := lru_misses s + 1\<rparr>) \<and>
               map fst (cache s) = [''a'', ''c''] \<and>
               lru_evictions s = 1))"
proof (intro conjI allI impI)
  show "case LRUCache_init 2 of
         Inl e \<Rightarrow> False
       | Inr c2 \<Rightarrow>
           (let s = lru_run [Set ''a'' (Obj (1::int)), Set ''b'' (Obj 2), Get ''a'',
                             Set ''c'' (Obj 3)] c2
            in fst (LRUCache_get ''a'' s) = Obj 1 \<and>
               fst (LRUCache_get ''c'' s) = Obj 3 \<and>
               LRUCache_get ''b'' s = (PyNone, s\<lparr>lru_misses := lru_misses s + 1\<rparr>) \<and>
               map fst (cache s) = [''a'', ''c''] \<and>
               lru_evictions s = 1)"
    by (simp add: LRUCache_init_def lru_run_def LRUCache_set_def LRUCache_get_def pop_def)
qed (simp_all add: LRUCache_get_def)

theorem lru_get_updates_recency_witness:
  "map_of [(''a'', Obj (1::int)), (''b'', Obj 2)] ''a'' = Some (Obj 1) \<and>
   map_of [(''a'', Obj (1::int)), (''b'', Obj 2)] ''z'' = None \<and>
   cache (snd (LRUCache_get ''a''
      \<lparr>max_size = 2, cache = [(''a'', Obj (1::int)), (''b'', Obj 2)],
       lru_hits = 0, lru_misses = 0, lru_evictions = 0\<rparr>)) = [(''b'', Obj 2), (''a'', Obj 1)] \<and>
   cache (snd (LRUCache_get ''z''
      \<lparr>max_size = 2, cache = [(''a'', Obj (1::int)), (''b'', Obj 2)],
       lru_hits = 0, lru_misses = 0, lru_evictions = 0\<rparr>)) = [(''a'', Obj 1), (''b'', Obj 2)]"
  using lru_get_updates_recency
    [of "\<lparr>max_size = 2, cache = [(''a'', Obj (1::int)), (''b'', Obj 2)],
         lru_hits = 0, lru_misses = 0, lru_evictions = 0\<rparr>" "''a''"]
    lru_get_updates_recency
    [of "\<lparr>max_size = 2, cache = [(''a'', Obj (1::int)), (''b'', Obj 2)],
         lru_hits = 0, lru_misses = 0, lru_evictions = 0\<rparr>" "''z''"]
  by (simp add: pop_def)

text \<open>
  Claim C2, as stated, fails: \<^verbatim>\<open>LRUCache(0)\<close> is constructed, not rejected.
\<close>

theorem lru_init_accepts_zero_capacity:
  "(0::int) \<le> 0 \<and>
   LRUCache_init 0 =
     Inr (\<lparr>max_size = 0, cache = [], lru_hits = 0, lru_misses = 0, lru_evictions = 0\<rparr>
          :: int LRUCache)"
  by (simp add: LRUCache_init_def)

text \<open>
  Claim C2, amended. \<^verbatim>\<open>LRUCache.__init__\<close> checks nothing: for every \<^verbatim>\<open>max_size\<close> it
  returns a cache with that capacity, no entries and all counters at zero, on which
  \<^verbatim>\<open>get\<close> reports a miss. A capacity of zero or less shows only at run time, when
  \<^verbatim>\<open>set\<close> on that cache raises \<^verbatim>\<open>KeyError\<close>.
\<close>

theorem lru_init_never_rejects:
  "\<exists>c. LRUCache_init n = Inr c \<and> max_size c = n \<and> LRUCache_size c = 0 \<and>
       lru_hits c = 0 \<and> lru_misses c = 0 \<and> lru_evictions c = 0 \<and>
       (\<forall>k. LRUCache_get k c = (PyNone, c\<lparr>lru_misses := 1\<rparr>)) \<and>
       (n \<le> 0 \<longrightarrow> (\<forall>k v. LRUCache_set k v c = Inl KeyError))"
  by (simp add: LRUCache_init_def LRUCache_size_def LRUCache_get_def LRUCache_set_def)

theorem lru_init_never_rejects_witness:
  "(-1::int) \<le> 0 \<and>
   LRUCache_init (-1) =
     Inr (\<lparr>max_size = -1, cache = [], lru_hits = 0, lru_misses = 0, lru_evictions = 0\<rparr>
          :: int LRUCache) \<and>
   LRUCache_set ''k'' (Obj 7)
     (\<lparr>max_size = -1, cache = [], lru_hits = 0, lru_misses = 0, lru_evictions = 0\<rparr>
          :: int LRUCache) = Inl KeyError"
  using lru_init_never_rejects [of "-1", where ?'a = int]
  by (auto simp: LRUCache_init_def)

section \<open>Lookup statistics\<close>










lemma LRUCache_set_positive:
  "0 < max_size c \<Longrightarrow> \<exists>c'. LRUCache_set k v c = Inr c' \<and> max_size c' = max_size c"
  by (auto simp: LRUCache_set_def split: list.splits)

lemma LRUCache_get_max_size: "max_size (snd (LRUCache_get k c)) = max_size c"
  by (simp add: LRUCache_get_def split: option.splits)









section \<open>Expiry in the file cache\<close>

lemma map_of_pop_same: "map_of (pop k d) k = None"
  by (auto simp: pop_def map_of_eq_None_iff)





section \<open>Invalidation\<close>

lemma clear_loop_writable:
  "\<not> read_only fs \<Longrightarrow> distinct ns \<Longrightarrow> set ns \<subseteq> fst ` set (listdir fs (cache_dir fc)) \<Longrightarrow>
   clear_loop ns n fc fs = (m, fc', fs') \<Longrightarrow>
   m = n + int (length (filter (\<lambda>x. endswith x ''.cache'') ns)) \<and>
   cache_dir fc' = cache_dir fc \<and>
   listdir fs' (cache_dir fc) =
     filter (\<lambda>e. \<not> (fst e \<in> set ns \<and> endswith (fst e) ''.cache'')) (listdir fs (cache_dir fc))"
proof (induction ns arbitrary: n fc fs)
  case Nil
  then show ?case by simp
next
  case (Cons x ns)
  let ?d = "cache_dir fc"
  show ?case
  proof (cases "endswith x ''.cache''")
    case False
    with Cons.prems have run: "clear_loop ns n fc fs = (m, fc', fs')" by simp
    have "m = n + int (length (filter (\<lambda>x. endswith x ''.cache'') ns)) \<and>
          cache_dir fc' = cache_dir fc \<and>
          listdir fs' ?d =
            filter (\<lambda>e. \<not> (fst e \<in> set ns \<and> endswith (fst e) ''.cache'')) (listdir fs ?d)"
      using Cons.prems by (intro Cons.IH[OF _ _ _ run]) auto
    moreover have "filter (\<lambda>e. \<not> (fst e \<in> set ns \<and> endswith (fst e) ''.cache'')) (listdir fs ?d)
        = filter (\<lambda>e. \<not> (fst e \<in> set (x # ns) \<and> endswith (fst e) ''.cache'')) (listdir fs ?d)"
      using False by (intro filter_cong) auto
    ultimately show ?thesis using False by simp
  next
    case True
    from Cons.prems have ex: "os_path_exists fs (?d, x)"
      by (auto simp: os_path_exists_def lookup_def map_of_eq_None_iff)
    let ?fs = "fs\<lparr>listdir := (listdir fs)(?d := pop x (listdir fs ?d))\<rparr>"
    let ?fc = "fc\<lparr>fc_deletes := fc_deletes fc + 1\<rparr>"
    have rm: "os_remove fs (?d, x) = Inr ?fs"
      using Cons.prems(1) ex by (simp add: os_remove_def)
    with True Cons.prems have run: "clear_loop ns (n + 1) ?fc ?fs = (m, fc', fs')" by simp
    have sub: "set ns \<subseteq> fst ` set (listdir ?fs (cache_dir ?fc))"
    proof
      fix y
      assume y: "y \<in> set ns"
      with Cons.prems(3) obtain e where e: "e \<in> set (listdir fs ?d)" "fst e = y" by auto
      from y Cons.prems(2) have "y \<noteq> x" by auto
      with e have "e \<in> set (pop x (listdir fs ?d))" by (simp add: pop_def)
      with e(2) show "y \<in> fst ` set (listdir ?fs (cache_dir ?fc))" by force
    qed
    have "m = (n + 1) + int (length (filter (\<lambda>x. endswith x ''.cache'') ns)) \<and>
          cache_dir fc' = cache_dir ?fc \<and>
          listdir fs' (cache_dir ?fc) =
            filter (\<lambda>e. \<not> (fst e \<in> set ns \<and> endswith (fst e) ''.cache''))
              (listdir ?fs (cache_dir ?fc))"
      using Cons.prems(1,2) sub by (intro Cons.IH[OF _ _ _ run]) auto
    moreover have "filter (\<lambda>e. \<not> (fst e \<in> set ns \<and> endswith (fst e) ''.cache'')) (pop x (listdir fs ?d))
        = filter (\<lambda>e. \<not> (fst e \<in> set (x # ns) \<and> endswith (fst e) ''.cache'')) (listdir fs ?d)"
      using True unfolding pop_def filter_filter by (intro filter_cong) auto
    ultimately show ?thesis using True by simp
  qed
qed

lemma FileCache_clear_writable:
  assumes "\<not> read_only fs" "distinct (map fst (listdir fs (cache_dir fc)))"
    and "FileCache_clear fc fs = (m, fc', fs')"
  shows "m = int (length (cache_files fc fs)) \<and> cache_files fc' fs' = []"
proof -
  let ?L = "listdir fs (cache_dir fc)"
  from assms(3) have run: "clear_loop (map fst ?L) 0 fc fs = (m, fc', fs')"
    by (simp add: FileCache_clear_def)
  from clear_loop_writable[OF assms(1,2) _ run]
  have m: "m = int (length (filter (\<lambda>x. endswith x ''.cache'') (map fst ?L)))"
    and d: "cache_dir fc' = cache_dir fc"
    and l: "listdir fs' (cache_dir fc) =
       filter (\<lambda>e. \<not> (fst e \<in> set (map fst ?L) \<and> endswith (fst e) ''.cache'')) ?L"
    by auto
  have "cache_files fc' fs' = []"
    unfolding cache_files_def d l by (auto simp: filter_empty_conv)
  with m show ?thesis by (simp add: cache_files_def)
qed

text \<open>
  Claim C9. \<^verbatim>\<open>invalidate_pattern\<close> does the same for any two table names: same
  count, same cache state, same file system. Whatever the name, the memory tier is
  empty afterwards; and where files can be removed (the file system is not
  read-only; a directory holds no name twice) no cache file of the disk tier is
  left, and the count returned is the number of cache files there were.
\<close>

theorem invalidate_pattern_ignores_label:
  "invalidate_pattern t1 qc fs = invalidate_pattern t2 qc fs
   \<and> (let (n, qc', fs') = invalidate_pattern t1 qc fs
      in cache (memory_cache qc') = [] \<and> LRUCache_size (memory_cache qc') = 0 \<and>
         (\<not> read_only fs \<and> distinct (map fst (listdir fs (cache_dir (file_cache qc)))) \<longrightarrow>
            cache_files (file_cache qc') fs' = [] \<and>
            n = int (length (cache_files (file_cache qc) fs))))"
proof -
  obtain m fc fs1 where c: "FileCache_clear (file_cache qc) fs = (m, fc, fs1)"
    by (cases "FileCache_clear (file_cache qc) fs")
  have "cache_files fc fs1 = [] \<and> m = int (length (cache_files (file_cache qc) fs))"
    if "\<not> read_only fs" "distinct (map fst (listdir fs (cache_dir (file_cache qc))))"
    using FileCache_clear_writable[OF that c] by simp
  then show ?thesis
    using c by (auto simp: invalidate_pattern_def LRUCache_clear_def LRUCache_size_def)
qed

theorem invalidate_pattern_ignores_label_witness:
  "\<not> read_only \<lparr>listdir = (\<lambda>d. [])(''/c'' :=
        [(''k.cache'', \<lparr>mtime = 0, blob = Pickled (Obj (1::int))\<rparr>),
         (''notes.txt'', \<lparr>mtime = 0, blob = Corrupt\<rparr>)]), read_only = False\<rparr> \<and>
   distinct (map fst [(''k.cache'', \<lparr>mtime = 0, blob = Pickled (Obj (1::int))\<rparr>),
         (''notes.txt'', \<lparr>mtime = 0, blob = Corrupt\<rparr>)]) \<and>
   invalidate_pattern ''movies''
     (QueryCache_init
        \<lparr>max_size = 2, cache = [(''k'', Obj 1)], lru_hits = 0, lru_misses = 0, lru_evictions = 0\<rparr>
        (FileCache_init ''/c'' 5))
     \<lparr>listdir = (\<lambda>d. [])(''/c'' :=
        [(''k.cache'', \<lparr>mtime = 0, blob = Pickled (Obj (1::int))\<rparr>),
         (''notes.txt'', \<lparr>mtime = 0, blob = Corrupt\<rparr>)]), read_only = False\<rparr>
   = invalidate_pattern ''pictures''
     (QueryCache_init
        \<lparr>max_size = 2, cache = [(''k'', Obj 1)], lru_hits = 0, lru_misses = 0, lru_evictions = 0\<rparr>
        (FileCache_init ''/c'' 5))
     \<lparr>listdir = (\<lambda>d. [])(''/c'' :=
        [(''k.cache'', \<lparr>mtime = 0, blob = Pickled (Obj (1::int))\<rparr>),
         (''notes.txt'', \<lparr>mtime = 0, blob = Corrupt\<rparr>)]), read_only = False\<rparr> \<and>
   (let (n, qc', fs') = invalidate_pattern ''movies''
     (QueryCache_init
        \<lparr>max_size = 2, cache = [(''k'', Obj 1)], lru_hits = 0, lru_misses = 0, lru_evictions = 0\<rparr>
        (FileCache_init ''/c'' 5))
     \<lparr>listdir = (\<lambda>d. [])(''/c'' :=
        [(''k.cache'', \<lparr>mtime = 0, blob = Pickled (Obj (1::int))\<rparr>),
         (''notes.txt'', \<lparr>mtime = 0, blob = Corrupt\<rparr>)]), read_only = False\<rparr>
    in cache (memory_cache qc') = [] \<and> cache_files (file_cache qc') fs' = [] \<and> n = 1)"
  using invalidate_pattern_ignores_label
    [of "''movies''"
        "QueryCache_init
        \<lparr>max_size = 2, cache = [(''k'', Obj 1)], lru_hits = 0, lru_misses = 0, lru_evictions = 0\<rparr>
        (FileCache_init ''/c'' 5)"
        "\<lparr>listdir = (\<lambda>d. [])(''/c'' :=
        [(''k.cache'', \<lparr>mtime = 0, blob = Pickled (Obj (1::int))\<rparr>),
         (''notes.txt'', \<lparr>mtime = 0, blob = Corrupt\<rparr>)]), read_only = False\<rparr>"
        "''pictures''"]
  by (simp add: QueryCache_init_def FileCache_init_def cache_files_def endswith_def
        split: prod.splits)

section \<open>Best-effort write-through\<close>

lemma LRUCache_set_stores:
  "LRUCache_set k v c = Inr c' \<Longrightarrow> map_of (cache c') k = Some v"
  by (auto simp: LRUCache_set_def map_of_pop_same map_add_def
      split: if_splits list.splits option.splits)

lemma LRUCache_get_present:
  "map_of (cache c) k = Some v \<Longrightarrow>
   LRUCache_get k c = (v, c\<lparr>cache := pop k (cache c) @ [(k, v)], lru_hits := lru_hits c + 1\<rparr>)"
  by (simp add: LRUCache_get_def)




section \<open>Read-through promotion\<close>

text \<open>
  Claim C4, as stated, fails for a stored \<^verbatim>\<open>None\<close>. The disk tier is given \<^verbatim>\<open>None\<close> under
  the query's key and finds it again, unexpired and unpickled, counting a hit of its
  own; the memory tier has no entry for the key. \<^verbatim>\<open>QueryCache.get\<close> then returns
  \<^verbatim>\<open>None\<close>, counts a miss and no disk hit, and leaves the memory tier empty.
\<close>

theorem none_on_disk_is_not_promoted:
  "FileCache_get id 1 (generate_cache_key id ''q'' ''()'') (FileCache_init ''/c'' 3600)
     (snd (snd (FileCache_set id 0 (generate_cache_key id ''q'' ''()'') (PyNone :: int pyval)
                  (FileCache_init ''/c'' 3600) empty_fs)))
   = (PyNone, (FileCache_init ''/c'' 3600)\<lparr>fc_hits := 1\<rparr>,
      snd (snd (FileCache_set id 0 (generate_cache_key id ''q'' ''()'') (PyNone :: int pyval)
                  (FileCache_init ''/c'' 3600) empty_fs)))
   \<and> map_of (cache \<lparr>max_size = 2, cache = [], lru_hits = 0, lru_misses = 0, lru_evictions = 0\<rparr>)
        (generate_cache_key id ''q'' ''()'') = (None :: int pyval option)
   \<and> fst (QueryCache_get id 1 ''q'' ''()''
        (QueryCache_init
           \<lparr>max_size = 2, cache = [], lru_hits = 0, lru_misses = 0, lru_evictions = 0\<rparr>
           (FileCache_init ''/c'' 3600))
        (snd (snd (FileCache_set id 0 (generate_cache_key id ''q'' ''()'') (PyNone :: int pyval)
                  (FileCache_init ''/c'' 3600) empty_fs)))) = Inr PyNone
   \<and> file_hits (fst (snd (QueryCache_get id 1 ''q'' ''()''
        (QueryCache_init
           \<lparr>max_size = 2, cache = [], lru_hits = 0, lru_misses = 0, lru_evictions = 0\<rparr>
           (FileCache_init ''/c'' 3600))
        (snd (snd (FileCache_set id 0 (generate_cache_key id ''q'' ''()'') (PyNone :: int pyval)
                  (FileCache_init ''/c'' 3600) empty_fs)))))) = 0
   \<and> qc_misses (fst (snd (QueryCache_get id 1 ''q'' ''()''
        (QueryCache_init
           \<lparr>max_size = 2, cache = [], lru_hits = 0, lru_misses = 0, lru_evictions = 0\<rparr>
           (FileCache_init ''/c'' 3600))
        (snd (snd (FileCache_set id 0 (generate_cache_key id ''q'' ''()'') (PyNone :: int pyval)
                  (FileCache_init ''/c'' 3600) empty_fs)))))) = 1
   \<and> cache (memory_cache (fst (snd (QueryCache_get id 1 ''q'' ''()''
        (QueryCache_init
           \<lparr>max_size = 2, cache = [], lru_hits = 0, lru_misses = 0, lru_evictions = 0\<rparr>
           (FileCache_init ''/c'' 3600))
        (snd (snd (FileCache_set id 0 (generate_cache_key id ''q'' ''()'') (PyNone :: int pyval)
                  (FileCache_init ''/c'' 3600) empty_fs))))))) = []"
  by (simp add: QueryCache_get_def QueryCache_init_def FileCache_init_def FileCache_get_def
      FileCache_set_def pickle_dump_def pickle_load_def empty_fs_def generate_cache_key_def
      get_cache_path_def os_path_exists_def lookup_def is_expired_def os_path_getmtime_def
      LRUCache_get_def)

text \<open>
  Claim C4, amended. On an orchestrator whose memory tier has positive capacity,
  when the key of a query misses in the memory tier (\<^verbatim>\<open>get\<close> there gives \<^verbatim>\<open>None\<close>) and
  the disk tier has an unexpired file for it that unpickles to a value other than
  \<^verbatim>\<open>None\<close>, \<^verbatim>\<open>QueryCache.get\<close> returns that value, adds one to \<^verbatim>\<open>file_hits\<close> and to no
  other counter of its own, leaves the file system as it was and has written the
  value into the memory tier: a \<^verbatim>\<open>get\<close> on the memory tier alone then returns the value
  and is a hit there.
\<close>

theorem disk_hit_is_promoted:
  assumes pos: "0 < max_size (memory_cache qc)"
    and miss: "fst (LRUCache_get (generate_cache_key md5 query params) (memory_cache qc)) = PyNone"
    and on_disk: "lookup fs (get_cache_path md5 (file_cache qc) (generate_cache_key md5 query params))
                 = Some f"
    and fresh: "now - mtime f \<le> real_of_int (max_age_seconds (file_cache qc))"
    and content: "blob f = Pickled v" "v \<noteq> PyNone"
  shows "\<exists>qc'. QueryCache_get md5 now query params qc fs = (Inr v, qc', fs) \<and>
           file_hits qc' = file_hits qc + 1 \<and>
           memory_hits qc' = memory_hits qc \<and> qc_misses qc' = qc_misses qc \<and>
           map_of (cache (memory_cache qc')) (generate_cache_key md5 query params) = Some v \<and>
           fst (LRUCache_get (generate_cache_key md5 query params) (memory_cache qc')) = v \<and>
           lru_hits (snd (LRUCache_get (generate_cache_key md5 query params) (memory_cache qc')))
             = lru_hits (memory_cache qc') + 1"
proof -
  let ?key = "generate_cache_key md5 query params"
  obtain r mc where g: "LRUCache_get ?key (memory_cache qc) = (r, mc)"
    by (cases "LRUCache_get ?key (memory_cache qc)")
  with miss have r: "r = PyNone" by simp
  have "max_size mc = max_size (memory_cache qc)"
    using LRUCache_get_max_size[of ?key "memory_cache qc"] g by simp
  with pos obtain mc' where s: "LRUCache_set ?key v mc = Inr mc'"
    using LRUCache_set_positive[of mc ?key v] by auto
  have held: "map_of (cache mc') ?key = Some v" using s by (rule LRUCache_set_stores)
  have d: "FileCache_get md5 now ?key (file_cache qc) fs =
             (v, (file_cache qc)\<lparr>fc_hits := fc_hits (file_cache qc) + 1\<rparr>, fs)"
    using on_disk fresh content(1)
    by (simp add: FileCache_get_def os_path_exists_def is_expired_def os_path_getmtime_def
        pickle_load_def)
  let ?qc = "qc\<lparr>memory_cache := mc',
                file_cache := (file_cache qc)\<lparr>fc_hits := fc_hits (file_cache qc) + 1\<rparr>,
                file_hits := file_hits qc + 1\<rparr>"
  have "QueryCache_get md5 now query params qc fs = (Inr v, ?qc, fs)"
    using g r d s content(2) by (simp add: QueryCache_get_def)
  moreover have "LRUCache_get ?key (memory_cache ?qc) =
      (v, mc'\<lparr>cache := pop ?key (cache mc') @ [(?key, v)], lru_hits := lru_hits mc' + 1\<rparr>)"
    using LRUCache_get_present[OF held] by simp
  ultimately show ?thesis using held by (intro exI[of _ ?qc]) simp
qed

theorem disk_hit_is_promoted_witness:
  "0 < max_size (memory_cache (QueryCache_init
       \<lparr>max_size = 2, cache = [], lru_hits = 0, lru_misses = 0, lru_evictions = 0\<rparr>
       (FileCache_init ''/c'' 3600))) \<and>
   fst (LRUCache_get (generate_cache_key id ''q'' ''()'')
       (memory_cache (QueryCache_init
       \<lparr>max_size = 2, cache = [], lru_hits = 0, lru_misses = 0, lru_evictions = 0\<rparr>
       (FileCache_init ''/c'' 3600)))) = (PyNone :: int pyval) \<and>
   lookup (snd (snd (FileCache_set id 0 (generate_cache_key id ''q'' ''()'') (Obj (7::int))
                  (FileCache_init ''/c'' 3600) empty_fs)))
      (get_cache_path id (file_cache (QueryCache_init
       \<lparr>max_size = 2, cache = [], lru_hits = 0, lru_misses = 0, lru_evictions = 0\<rparr>
       (FileCache_init ''/c'' 3600))) (generate_cache_key id ''q'' ''()''))
     = Some \<lparr>mtime = 0, blob = Pickled (Obj 7)\<rparr> \<and>
   (1::real) - 0 \<le> real_of_int 3600 \<and> Obj (7::int) \<noteq> PyNone \<and>
   fst (QueryCache_get id 1 ''q'' ''()''
        (QueryCache_init
           \<lparr>max_size = 2, cache = [], lru_hits = 0, lru_misses = 0, lru_evictions = 0\<rparr>
           (FileCache_init ''/c'' 3600))
        (snd (snd (FileCache_set id 0 (generate_cache_key id ''q'' ''()'') (Obj (7::int))
                  (FileCache_init ''/c'' 3600) empty_fs)))) = Inr (Obj 7) \<and>
   file_hits (fst (snd (QueryCache_get id 1 ''q'' ''()''
        (QueryCache_init
           \<lparr>max_size = 2, cache = [], lru_hits = 0, lru_misses = 0, lru_evictions = 0\<rparr>
           (FileCache_init ''/c'' 3600))
        (snd (snd (FileCache_set id 0 (generate_cache_key id ''q'' ''()'') (Obj (7::int))
                  (FileCache_init ''/c'' 3600) empty_fs)))))) = 1 \<and>
   fst (LRUCache_get (generate_cache_key id ''q'' ''()'')
      (memory_cache (fst (snd (QueryCache_get id 1 ''q'' ''()''
        (QueryCache_init
           \<lparr>max_size = 2, cache = [], lru_hits = 0, lru_misses = 0, lru_evictions = 0\<rparr>
           (FileCache_init ''/c'' 3600))
        (snd (snd (FileCache_set id 0 (generate_cache_key id ''q'' ''()'') (Obj (7::int))
                  (FileCache_init ''/c'' 3600) empty_fs)))))))) = Obj 7"
  using disk_hit_is_promoted
    [of "QueryCache_init
           \<lparr>max_size = 2, cache = [], lru_hits = 0, lru_misses = 0, lru_evictions = 0\<rparr>
           (FileCache_init ''/c'' 3600)" id "''q''" "''()''"
        "snd (snd (FileCache_set id 0 (generate_cache_key id ''q'' ''()'') (Obj (7::int))
                  (FileCache_init ''/c'' 3600) empty_fs))"
        "\<lparr>mtime = 0, blob = Pickled (Obj 7)\<rparr>" 1 "Obj 7"]
  by (auto simp: QueryCache_init_def FileCache_init_def FileCache_set_def pickle_dump_def
      empty_fs_def generate_cache_key_def get_cache_path_def os_path_exists_def lookup_def
      LRUCache_get_def)

section \<open>None as a stored value\<close>

lemma LRUCache_get_keeps_entry:
  "map_of (cache c) k = Some v \<Longrightarrow> map_of (cache (snd (LRUCache_get k c))) k = Some v"
  by (simp add: LRUCache_get_def map_add_def map_of_pop_same)

lemma LRUCache_get_none_result:
  "map_of (cache c) k = None \<or> map_of (cache c) k = Some PyNone \<Longrightarrow>
   fst (LRUCache_get k c) = PyNone"
  by (auto simp: LRUCache_get_def)

lemma FileCache_get_fresh:
  "lookup fs (get_cache_path md5 fc k) = Some f \<Longrightarrow>
   now - mtime f \<le> real_of_int (max_age_seconds fc) \<Longrightarrow> blob f = Pickled v \<Longrightarrow>
   FileCache_get md5 now k fc fs = (v, fc\<lparr>fc_hits := fc_hits fc + 1\<rparr>, fs)"
  by (simp add: FileCache_get_def os_path_exists_def is_expired_def os_path_getmtime_def
      pickle_load_def)

lemma FileCache_get_absent:
  "lookup fs (get_cache_path md5 fc k) = None \<Longrightarrow>
   FileCache_get md5 now k fc fs = (PyNone, fc\<lparr>fc_misses := fc_misses fc + 1\<rparr>, fs)"
  by (simp add: FileCache_get_def os_path_exists_def)

lemma QueryCache_get_double_none:
  assumes "fst (LRUCache_get (generate_cache_key md5 query params) (memory_cache qc)) = PyNone"
    and "FileCache_get md5 now (generate_cache_key md5 query params) (file_cache qc) fs
           = (PyNone, fc, fs')"
  shows "QueryCache_get md5 now query params qc fs =
           (Inr PyNone,
            qc\<lparr>memory_cache :=
                  snd (LRUCache_get (generate_cache_key md5 query params) (memory_cache qc)),
               file_cache := fc, qc_misses := qc_misses qc + 1\<rparr>,
            fs')"
proof -
  obtain r mc where g: "LRUCache_get (generate_cache_key md5 query params) (memory_cache qc) = (r, mc)"
    by (cases "LRUCache_get (generate_cache_key md5 query params) (memory_cache qc)")
  with assms(1) have "r = PyNone" by simp
  with g assms(2) show ?thesis by (simp add: QueryCache_get_def)
qed

text \<open>
  Claim C10. A stored \<^verbatim>\<open>None\<close> reads as absence. \<^verbatim>\<open>LRUCache.get\<close> of a key stored with
  \<^verbatim>\<open>None\<close> returns \<^verbatim>\<open>None\<close>, the entry staying in the cache; \<^verbatim>\<open>FileCache.get\<close> of a key whose
  unexpired file holds \<^verbatim>\<open>None\<close> returns \<^verbatim>\<open>None\<close> (and counts a hit, the file staying).
  \<^verbatim>\<open>QueryCache.get\<close> returns \<^verbatim>\<open>None\<close> and adds one to \<^verbatim>\<open>misses\<close>, and to neither hit
  counter, both when the disk tier holds \<^verbatim>\<open>None\<close> for the key (the memory tier holding
  \<^verbatim>\<open>None\<close> or nothing) and when only the memory tier holds \<^verbatim>\<open>None\<close>; the memory tier is
  left as its own \<^verbatim>\<open>get\<close> leaves it, so nothing is promoted.
\<close>

theorem stored_none_reads_as_miss:
  "(map_of (cache c) k = Some PyNone \<longrightarrow>
      fst (LRUCache_get k c) = PyNone \<and>
      map_of (cache (snd (LRUCache_get k c))) k = Some PyNone)
   \<and> (\<forall>f. lookup fs (get_cache_path md5 fc k) = Some f \<and>
           now - mtime f \<le> real_of_int (max_age_seconds fc) \<and> blob f = Pickled PyNone \<longrightarrow>
         FileCache_get md5 now k fc fs = (PyNone, fc\<lparr>fc_hits := fc_hits fc + 1\<rparr>, fs))
   \<and> (\<forall>f. (map_of (cache (memory_cache qc)) (generate_cache_key md5 query params) = None \<or>
            map_of (cache (memory_cache qc)) (generate_cache_key md5 query params) = Some PyNone) \<and>
           lookup fs (get_cache_path md5 (file_cache qc) (generate_cache_key md5 query params))
             = Some f \<and>
           now - mtime f \<le> real_of_int (max_age_seconds (file_cache qc)) \<and>
           blob f = Pickled PyNone \<longrightarrow>
         (\<exists>qc'. QueryCache_get md5 now query params qc fs = (Inr PyNone, qc', fs) \<and>
               qc_misses qc' = qc_misses qc + 1 \<and>
               memory_hits qc' = memory_hits qc \<and> file_hits qc' = file_hits qc \<and>
               memory_cache qc' =
                 snd (LRUCache_get (generate_cache_key md5 query params) (memory_cache qc)) \<and>
               map_of (cache (memory_cache qc')) (generate_cache_key md5 query params) =
                 map_of (cache (memory_cache qc)) (generate_cache_key md5 query params)))
   \<and> (map_of (cache (memory_cache qc)) (generate_cache_key md5 query params) = Some PyNone \<and>
       lookup fs (get_cache_path md5 (file_cache qc) (generate_cache_key md5 query params))
         = None \<longrightarrow>
         (\<exists>qc'. QueryCache_get md5 now query params qc fs = (Inr PyNone, qc', fs) \<and>
               qc_misses qc' = qc_misses qc + 1 \<and>
               memory_hits qc' = memory_hits qc \<and> file_hits qc' = file_hits qc \<and>
               map_of (cache (memory_cache qc')) (generate_cache_key md5 query params) =
                 Some PyNone))"
proof (intro conjI allI impI)
  assume "map_of (cache c) k = Some PyNone"
  then show "fst (LRUCache_get k c) = PyNone"
    and "map_of (cache (snd (LRUCache_get k c))) k = Some PyNone"
    by (simp_all add: LRUCache_get_none_result LRUCache_get_keeps_entry)
next
  fix f
  assume "lookup fs (get_cache_path md5 fc k) = Some f \<and>
           now - mtime f \<le> real_of_int (max_age_seconds fc) \<and> blob f = Pickled PyNone"
  then show "FileCache_get md5 now k fc fs = (PyNone, fc\<lparr>fc_hits := fc_hits fc + 1\<rparr>, fs)"
    by (simp add: FileCache_get_fresh)
next
  fix f
  let ?key = "generate_cache_key md5 query params"
  let ?mc = "snd (LRUCache_get ?key (memory_cache qc))"
  assume h: "(map_of (cache (memory_cache qc)) ?key = None \<or>
            map_of (cache (memory_cache qc)) ?key = Some PyNone) \<and>
           lookup fs (get_cache_path md5 (file_cache qc) ?key) = Some f \<and>
           now - mtime f \<le> real_of_int (max_age_seconds (file_cache qc)) \<and>
           blob f = Pickled PyNone"
  then have m: "fst (LRUCache_get ?key (memory_cache qc)) = PyNone"
    by (intro LRUCache_get_none_result) simp
  from h have d: "FileCache_get md5 now ?key (file_cache qc) fs =
      (PyNone, (file_cache qc)\<lparr>fc_hits := fc_hits (file_cache qc) + 1\<rparr>, fs)"
    by (intro FileCache_get_fresh) auto
  have same: "map_of (cache ?mc) ?key = map_of (cache (memory_cache qc)) ?key"
    using h LRUCache_get_keeps_entry[of "memory_cache qc" ?key PyNone]
    by (auto simp: LRUCache_get_def)
  show "\<exists>qc'. QueryCache_get md5 now query params qc fs = (Inr PyNone, qc', fs) \<and>
               qc_misses qc' = qc_misses qc + 1 \<and>
               memory_hits qc' = memory_hits qc \<and> file_hits qc' = file_hits qc \<and>
               memory_cache qc' = ?mc \<and>
               map_of (cache (memory_cache qc')) ?key = map_of (cache (memory_cache qc)) ?key"
    using QueryCache_get_double_none[OF m d] same by simp
next
  let ?key = "generate_cache_key md5 query params"
  assume h: "map_of (cache (memory_cache qc)) ?key = Some PyNone \<and>
       lookup fs (get_cache_path md5 (file_cache qc) ?key) = None"
  then have m: "fst (LRUCache_get ?key (memory_cache qc)) = PyNone"
    by (intro LRUCache_get_none_result) simp
  from h have d: "FileCache_get md5 now ?key (file_cache qc) fs =
      (PyNone, (file_cache qc)\<lparr>fc_misses := fc_misses (file_cache qc) + 1\<rparr>, fs)"
    by (intro FileCache_get_absent) simp
  show "\<exists>qc'. QueryCache_get md5 now query params qc fs = (Inr PyNone, qc', fs) \<and>
               qc_misses qc' = qc_misses qc + 1 \<and>
               memory_hits qc' = memory_hits qc \<and> file_hits qc' = file_hits qc \<and>
               map_of (cache (memory_cache qc')) ?key = Some PyNone"
    using QueryCache_get_double_none[OF m d] h LRUCache_get_keeps_entry[of "memory_cache qc" ?key PyNone]
    by simp
qed

theorem stored_none_reads_as_miss_witness:
  "map_of (cache \<lparr>max_size = 2, cache = [(''query:q:()'', PyNone :: int pyval)], lru_hits = 0, lru_misses = 0, lru_evictions = 0\<rparr>) ''query:q:()'' = Some PyNone \<and>
   generate_cache_key id ''q'' ''()'' = ''query:q:()'' \<and>
   lookup (snd (snd (FileCache_set id 0 ''query:q:()'' (PyNone :: int pyval) (FileCache_init ''/c'' 3600) empty_fs))) (get_cache_path id (FileCache_init ''/c'' 3600) ''query:q:()'') = Some \<lparr>mtime = 0, blob = Pickled PyNone\<rparr> \<and>
   (1::real) - 0 \<le> real_of_int 3600 \<and>
   lookup (empty_fs :: int fsys) (get_cache_path id (FileCache_init ''/c'' 3600) ''query:q:()'') = None \<and>
   fst (LRUCache_get ''query:q:()'' \<lparr>max_size = 2, cache = [(''query:q:()'', PyNone :: int pyval)], lru_hits = 0, lru_misses = 0, lru_evictions = 0\<rparr>) = PyNone \<and>
   fst (FileCache_get id 1 ''query:q:()'' (FileCache_init ''/c'' 3600) (snd (snd (FileCache_set id 0 ''query:q:()'' (PyNone :: int pyval) (FileCache_init ''/c'' 3600) empty_fs)))) = PyNone \<and>
   fst (QueryCache_get id 1 ''q'' ''()'' (QueryCache_init \<lparr>max_size = 2, cache = [(''query:q:()'', PyNone :: int pyval)], lru_hits = 0, lru_misses = 0, lru_evictions = 0\<rparr> (FileCache_init ''/c'' 3600)) (snd (snd (FileCache_set id 0 ''query:q:()'' (PyNone :: int pyval) (FileCache_init ''/c'' 3600) empty_fs)))) = Inr PyNone \<and>
   qc_misses (fst (snd (QueryCache_get id 1 ''q'' ''()'' (QueryCache_init \<lparr>max_size = 2, cache = [(''query:q:()'', PyNone :: int pyval)], lru_hits = 0, lru_misses = 0, lru_evictions = 0\<rparr> (FileCache_init ''/c'' 3600)) (snd (snd (FileCache_set id 0 ''query:q:()'' (PyNone :: int pyval) (FileCache_init ''/c'' 3600) empty_fs)))))) = 1 \<and>
   fst (QueryCache_get id 1 ''q'' ''()'' (QueryCache_init \<lparr>max_size = 2, cache = [(''query:q:()'', PyNone :: int pyval)], lru_hits = 0, lru_misses = 0, lru_evictions = 0\<rparr> (FileCache_init ''/c'' 3600)) empty_fs) = Inr PyNone \<and>
   qc_misses (fst (snd (QueryCache_get id 1 ''q'' ''()'' (QueryCache_init \<lparr>max_size = 2, cache = [(''query:q:()'', PyNone :: int pyval)], lru_hits = 0, lru_misses = 0, lru_evictions = 0\<rparr> (FileCache_init ''/c'' 3600)) empty_fs))) = 1"
  using stored_none_reads_as_miss
    [of "\<lparr>max_size = 2, cache = [(''query:q:()'', PyNone :: int pyval)], lru_hits = 0, lru_misses = 0, lru_evictions = 0\<rparr>" "''query:q:()''" "(snd (snd (FileCache_set id 0 ''query:q:()'' (PyNone :: int pyval) (FileCache_init ''/c'' 3600) empty_fs)))" id "(FileCache_init ''/c'' 3600)" 1 "(QueryCache_init \<lparr>max_size = 2, cache = [(''query:q:()'', PyNone :: int pyval)], lru_hits = 0, lru_misses = 0, lru_evictions = 0\<rparr> (FileCache_init ''/c'' 3600))" "''q''" "''()''"]
    stored_none_reads_as_miss
    [of "\<lparr>max_size = 2, cache = [(''query:q:()'', PyNone :: int pyval)], lru_hits = 0, lru_misses = 0, lru_evictions = 0\<rparr>" "''query:q:()''" "empty_fs" id "(FileCache_init ''/c'' 3600)" 1 "(QueryCache_init \<lparr>max_size = 2, cache = [(''query:q:()'', PyNone :: int pyval)], lru_hits = 0, lru_misses = 0, lru_evictions = 0\<rparr> (FileCache_init ''/c'' 3600))" "''q''" "''()''"]
  by (auto simp: QueryCache_init_def FileCache_init_def FileCache_set_def pickle_dump_def
      empty_fs_def generate_cache_key_def get_cache_path_def os_path_exists_def lookup_def)

section \<open>Clearing all caches\<close>

lemma clear_all_caches_memory_untouched:
  "cm_memory_cache (fst (snd (clear_all_caches cm fs))) = cm_memory_cache cm \<and>
   config_cache (fst (snd (clear_all_caches cm fs))) = config_cache cm"
  by (simp add: clear_all_caches_def cm_memory_cache_def split: prod.splits)

text \<open>
  Claim C1 (that \<^verbatim>\<open>clear_all_caches\<close> clears every cache it owns) against the code. A
  manager is built with the default arguments, \<^verbatim>\<open>memory_cache.set('k', 1)\<close> and
  \<^verbatim>\<open>config_cache.set('theme', 2)\<close> are called, and the file cache holds one file.
  \<^verbatim>\<open>clear_all_caches\<close> then reports one entry cleared for each of the two memory
  caches and one file deleted, and the file is gone; but both memory caches still
  hold their entry, and \<^verbatim>\<open>get\<close> returns it: the method calls \<^verbatim>\<open>size()\<close> on them, never
  \<^verbatim>\<open>clear()\<close>.
\<close>

theorem clear_all_caches_keeps_memory_entries:
  "case CacheManager_init 1000 ''/app/data/cache'' 3600 of
     Inl e \<Rightarrow> False
   | Inr cm0 \<Rightarrow>
       (let cm1 = cm0\<lparr>query_cache := (query_cache cm0)
                        \<lparr>memory_cache := lru_step (Set ''k'' (Obj (1::int))) (cm_memory_cache cm0)\<rparr>,
                      config_cache := lru_step (Set ''theme'' (Obj 2)) (config_cache cm0)\<rparr>;
            fs = snd (snd (FileCache_set id 0 ''k'' (Obj 1) (cm_file_cache cm1) empty_fs));
            (counts, cm2, fs2) = clear_all_caches cm1 fs
        in cache_files (cm_file_cache cm1) fs = [''k.cache''] \<and>
           counts = [(''memory_cache_cleared'', 1), (''file_cache_deleted'', 1),
                     (''image_cache_deleted'', 0), (''config_cache_cleared'', 1)] \<and>
           cache_files (cm_file_cache cm2) fs2 = [] \<and>
           LRUCache_size (cm_memory_cache cm2) = 1 \<and>
           fst (LRUCache_get ''k'' (cm_memory_cache cm2)) = Obj 1 \<and>
           LRUCache_size (config_cache cm2) = 1 \<and>
           fst (LRUCache_get ''theme'' (config_cache cm2)) = Obj 2)"
  by (simp add: CacheManager_init_def LRUCache_init_def QueryCache_init_def FileCache_init_def
      cm_memory_cache_def cm_file_cache_def LRUCache_set_def LRUCache_get_def LRUCache_size_def
      FileCache_set_def pickle_dump_def empty_fs_def get_cache_path_def os_path_exists_def
      lookup_def clear_all_caches_def FileCache_clear_def os_remove_def pop_def endswith_def
      cache_files_def os_path_join_def)

end
